theory Spec2Isabelle
  imports Main "HOL-Library.Sublist"
begin

section \<open>Data model of \<open>definitions-parser/src/git.ts\<close>\<close>

text \<open>
  \<open>GitDiff\<close> is the union type of lines 9--18: a status letter with the file, and for a
  rename (\<open>"R"\<close>) also the source; the field \<open>file\<close> (here \<open>diff_file\<close>) of a rename is the
  destination (line 49).
\<close>

datatype GitDiff =
    Diff_A (diff_file: string)
  | Diff_D (diff_file: string)
  | Diff_M (diff_file: string)
  | Diff_R (diff_file: string) (source: string)

fun status :: "GitDiff \<Rightarrow> string" where
  "status (Diff_A f) = ''A''"
| "status (Diff_D f) = ''D''"
| "status (Diff_M f) = ''M''"
| "status (Diff_R f src) = ''R''"

text \<open>
  Modelled from the spec: the declarations of \<open>PackageId\<close>, of the directory version and of
  \<open>NotNeededPackage\<close> live in \<open>packages.ts\<close>, which is not among the sources. The spec gives
  a package identity as a directory name with a version that is a (major, minor) pair or the
  wildcard \<open>"*"\<close>, and a deprecation record as \<open>{ name, libraryName, version }\<close>. The
  directory name is optional here because \<open>getNotNeededPackages\<close> guards its read with
  \<open>assertDefined\<close> (line 174); the minor number is optional because the spec's scenario
  maps the directory \<open>v2\<close> to a version.
\<close>

record DirectoryParsedTypingVersion =
  major :: nat
  minor :: "nat option"

datatype TypingVersion = Wildcard | Exact DirectoryParsedTypingVersion

record PackageId =
  typesDirectoryName :: "string option"
  version :: TypingVersion

record NotNeededPackage =
  name :: string
  libraryName :: string
  version :: string

text \<open>What \<open>pacote.manifest\<close> resolves to (only the version is read), and what it rejects with.\<close>

record Manifest =
  version :: string

record reason =
  code :: "string option"
  message :: string

text \<open>
  The class \<open>AllPackages\<close> is used through two queries only (lines 178 and 179).
\<close>

record AllPackages =
  hasTypingFor :: "PackageId \<Rightarrow> bool"
  getNotNeededPackage :: "string \<Rightarrow> NotNeededPackage option"

section \<open>JavaScript containers and strings\<close>

text \<open>
  A JavaScript \<open>Map\<close> iterates in insertion order, and \<open>set\<close> on a key that is present
  replaces the value where the key stands. An association list with this update is the model.
\<close>

type_synonym ('k, 'v) js_map = "('k \<times> 'v) list"

fun Map_set :: "'k \<Rightarrow> 'v \<Rightarrow> ('k, 'v) js_map \<Rightarrow> ('k, 'v) js_map" where
  "Map_set k v [] = [(k, v)]"
| "Map_set k v ((k', v') # m) = (if k' = k then (k, v) # m else (k', v') # Map_set k v m)"

definition Map_values :: "('k, 'v) js_map \<Rightarrow> 'v list" where
  "Map_values m = map snd m"

definition Map_has :: "('k, 'v) js_map \<Rightarrow> 'k \<Rightarrow> bool" where
  "Map_has m k = (k \<in> fst ` set m)"

definition Map_get :: "('k, 'v) js_map \<Rightarrow> 'k \<Rightarrow> 'v option" where
  "Map_get m k = map_of m k"

text \<open>A sequence of \<open>set\<close> calls, in order.\<close>

fun Map_set_all :: "('k, 'v) js_map \<Rightarrow> ('k \<times> 'v) list \<Rightarrow> ('k, 'v) js_map" where
  "Map_set_all m [] = m"
| "Map_set_all m ((k, v) # ws) = Map_set_all (Map_set k v m) ws"

text \<open>A JavaScript \<open>Set\<close> built from an array keeps the first occurrence of each element.\<close>

definition Set_add :: "'a \<Rightarrow> 'a list \<Rightarrow> 'a list" where
  "Set_add x s = (if x \<in> set s then s else s @ [x])"

fun Set_add_all :: "'a list \<Rightarrow> 'a list \<Rightarrow> 'a list" where
  "Set_add_all s [] = s"
| "Set_add_all s (x # xs) = Set_add_all (Set_add x s) xs"

definition new_Set :: "'a list \<Rightarrow> 'a list" where
  "new_Set xs = Set_add_all [] xs"

text \<open>A template literal prints an undefined value as \<open>undefined\<close>.\<close>

fun template_string :: "string option \<Rightarrow> string" where
  "template_string None = ''undefined''"
| "template_string (Some s) = s"

definition newline :: string where
  "newline = [CHR 0x0A]"

fun starts_with :: "string \<Rightarrow> string \<Rightarrow> bool" where
  "starts_with [] s = True"
| "starts_with (p # ps) [] = False"
| "starts_with (p # ps) (c # cs) = (p = c \<and> starts_with ps cs)"

text \<open>
  The test of line 73, \<open>/types[\\/]/.test(diff.file)\<close>: the regular expression is not
  anchored, so it looks for \<open>types\<close> followed by a slash or a backslash anywhere in the path.
\<close>

fun test_types_sep :: "string \<Rightarrow> bool" where
  "test_types_sep [] = False"
| "test_types_sep (c # cs) =
     (starts_with ''types/'' (c # cs) \<or> starts_with (''types'' @ [CHR 0x5C]) (c # cs)
      \<or> test_types_sep cs)"

section \<open>\<open>gitChanges\<close> (lines 66--102)\<close>

text \<open>
  \<open>getDependencyFromFile\<close> and \<open>formatTypingVersion\<close> are imported from \<open>packages.ts\<close>;
  \<open>gitChanges\<close> takes them as the parameters \<open>gdf\<close> and \<open>fmt\<close>, so what is proved of it holds
  for every implementation of the two.
\<close>

record changes_state =
  deletions :: "(string, PackageId) js_map"
  additions :: "(string, PackageId) js_map"
  errors :: "string list"

definition initial_state :: changes_state where
  "initial_state = \<lparr>deletions = [], additions = [], errors = []\<rparr>"

text \<open>The key of lines 77 and 83--85.\<close>

definition package_key :: "(DirectoryParsedTypingVersion \<Rightarrow> string) \<Rightarrow> PackageId \<Rightarrow> string" where
  "package_key fmt dep =
     template_string (typesDirectoryName dep) @ ''/v'' @
     (case PackageId.version dep of Wildcard \<Rightarrow> ''*'' | Exact v \<Rightarrow> fmt v)"

text \<open>The message of lines 90--97.\<close>

definition unexpected_file_message :: "GitDiff \<Rightarrow> string" where
  "unexpected_file_message diff =
     (if status diff = ''A'' \<or> status diff = ''R''
      then ''Unexpected file added: '' @ diff_file diff @ newline @
           ''You should only add files that are part of packages.''
      else ''Unexpected file deleted: '' @ diff_file diff @ newline @
           ''You should only delete files that are a part of removed packages.'')"

text \<open>The source of a move goes to the deletions (lines 79--88).\<close>

fun add_move_source ::
  "(string \<Rightarrow> PackageId option) \<Rightarrow> (DirectoryParsedTypingVersion \<Rightarrow> string) \<Rightarrow>
   changes_state \<Rightarrow> GitDiff \<Rightarrow> changes_state" where
  "add_move_source gdf fmt s (Diff_R f src) =
     (case gdf src of
        Some srcDep \<Rightarrow> s\<lparr>deletions := Map_set (package_key fmt srcDep) srcDep (deletions s)\<rparr>
      | None \<Rightarrow> s)"
| "add_move_source gdf fmt s diff = s"

text \<open>One iteration of the loop of lines 72--99.\<close>

definition gitChanges_step ::
  "(string \<Rightarrow> PackageId option) \<Rightarrow> (DirectoryParsedTypingVersion \<Rightarrow> string) \<Rightarrow>
   changes_state \<Rightarrow> GitDiff \<Rightarrow> changes_state" where
  "gitChanges_step gdf fmt s diff =
     (if \<not> test_types_sep (diff_file diff) then s
      else if status diff = ''M'' then s
      else (case gdf (diff_file diff) of
              Some dep \<Rightarrow>
                add_move_source gdf fmt
                  (if status diff = ''D''
                   then s\<lparr>deletions := Map_set (package_key fmt dep) dep (deletions s)\<rparr>
                   else s\<lparr>additions := Map_set (package_key fmt dep) dep (additions s)\<rparr>)
                  diff
            | None \<Rightarrow> s\<lparr>errors := errors s @ [unexpected_file_message diff]\<rparr>))"

fun gitChanges_loop ::
  "(string \<Rightarrow> PackageId option) \<Rightarrow> (DirectoryParsedTypingVersion \<Rightarrow> string) \<Rightarrow>
   changes_state \<Rightarrow> GitDiff list \<Rightarrow> changes_state" where
  "gitChanges_loop gdf fmt s [] = s"
| "gitChanges_loop gdf fmt s (diff # diffs) =
     gitChanges_loop gdf fmt (gitChanges_step gdf fmt s diff) diffs"

datatype GitChangesResult =
    GitErrors "string list"
  | GitChanges "PackageId list" "PackageId list"

definition gitChanges ::
  "(string \<Rightarrow> PackageId option) \<Rightarrow> (DirectoryParsedTypingVersion \<Rightarrow> string) \<Rightarrow>
   GitDiff list \<Rightarrow> GitChangesResult" where
  "gitChanges gdf fmt diffs =
     (let s = gitChanges_loop gdf fmt initial_state diffs
      in if errors s \<noteq> [] then GitErrors (errors s)
         else GitChanges (Map_values (deletions s)) (Map_values (additions s)))"

section \<open>The helpers of \<open>packages.ts\<close>, for concrete runs\<close>

fun split_on :: "char \<Rightarrow> string \<Rightarrow> string list" where
  "split_on sep [] = [[]]"
| "split_on sep (c # cs) =
     (if c = sep then [] # split_on sep cs
      else (case split_on sep cs of
              [] \<Rightarrow> [[c]]
            | p # ps \<Rightarrow> (c # p) # ps))"

fun position_from :: "nat \<Rightarrow> 'a \<Rightarrow> 'a list \<Rightarrow> nat option" where
  "position_from i x [] = None"
| "position_from i x (y # ys) = (if x = y then Some i else position_from (Suc i) x ys)"

definition digit_value :: "char \<Rightarrow> nat option" where
  "digit_value c = position_from 0 c ''0123456789''"

fun parse_digits :: "nat \<Rightarrow> string \<Rightarrow> nat option" where
  "parse_digits acc [] = Some acc"
| "parse_digits acc (c # cs) =
     (case digit_value c of
        None \<Rightarrow> None
      | Some d \<Rightarrow> parse_digits (10 * acc + d) cs)"

definition parse_number :: "string \<Rightarrow> nat option" where
  "parse_number s = (if s = [] then None else parse_digits 0 s)"

definition digit_char :: "nat \<Rightarrow> char" where
  "digit_char d = ''0123456789'' ! d"

fun decimal :: "nat \<Rightarrow> string" where
  "decimal n =
     (if n < 10 then [digit_char n] else decimal (n div 10) @ [digit_char (n mod 10)])"

declare decimal.simps [simp del]

text \<open>
  Modelled from the spec: the version directory of the path grammar, \<open>v<major>.<minor>\<close>,
  or \<open>v<major>\<close> alone as in the scenario \<open>types/foo/v2/index.d.ts\<close>. The parser of
  \<open>packages.ts\<close> is not among the sources.
\<close>

definition parseVersionFromDirectoryName :: "string \<Rightarrow> DirectoryParsedTypingVersion option" where
  "parseVersionFromDirectoryName d =
     (case d of
        [] \<Rightarrow> None
      | c # rest \<Rightarrow>
          if c \<noteq> CHR ''v'' then None
          else (case split_on CHR ''.'' rest of
                  [ma] \<Rightarrow>
                    (case parse_number ma of
                       None \<Rightarrow> None
                     | Some a \<Rightarrow> Some \<lparr>major = a, minor = None\<rparr>)
                | [ma, mi] \<Rightarrow>
                    (case (parse_number ma, parse_number mi) of
                       (Some a, Some b) \<Rightarrow> Some \<lparr>major = a, minor = Some b\<rparr>
                     | _ \<Rightarrow> None)
                | _ \<Rightarrow> None))"

text \<open>
  Modelled from the spec: \<open>getDependencyFromFile\<close> of \<open>packages.ts\<close> is not among the
  sources. The spec's path grammar is \<open><root>/<directoryName>[/v<major>.<minor>]/...\<close> with
  the root \<open>types\<close>; a path that does not match maps to nothing. Its scenarios map
  \<open>types/foo/v2/index.d.ts\<close> to \<open>foo\<close> at version 2 and \<open>types/foo/index.d.ts\<close> to \<open>foo\<close> at
  the wildcard.
\<close>

definition getDependencyFromFile :: "string \<Rightarrow> PackageId option" where
  "getDependencyFromFile path =
     (case split_on CHR ''/'' path of
        root # dir # sub # rest \<Rightarrow>
          if root \<noteq> ''types'' \<or> dir = [] then None
          else (case parseVersionFromDirectoryName sub of
                  Some v \<Rightarrow>
                    if rest = []
                    then Some \<lparr>typesDirectoryName = Some dir, PackageId.version = Wildcard\<rparr>
                    else Some \<lparr>typesDirectoryName = Some dir, PackageId.version = Exact v\<rparr>
                | None \<Rightarrow> Some \<lparr>typesDirectoryName = Some dir, PackageId.version = Wildcard\<rparr>)
      | _ \<Rightarrow> None)"

text \<open>
  Modelled from the spec: \<open>formatTypingVersion\<close> of \<open>packages.ts\<close> is not among the sources.
  The spec writes the key of an exact version as \<open><directoryName>/v<major.minor>\<close>.
\<close>

definition formatTypingVersion :: "DirectoryParsedTypingVersion \<Rightarrow> string" where
  "formatTypingVersion v =
     decimal (major v) @ (case minor v of None \<Rightarrow> [] | Some m \<Rightarrow> ''.'' @ decimal m)"

text \<open>
  A formatter that prints the major number alone. Under it the versions 2.0 and 2.1 of a
  package share a key, which makes an overwrite visible in a concrete run.
\<close>

definition format_major_only :: "DirectoryParsedTypingVersion \<Rightarrow> string" where
  "format_major_only v = decimal (major v)"

text \<open>
  \<open>semver.gt\<close> belongs to the npm package \<open>semver\<close>; \<open>checkNotNeededPackage\<close> takes it as a
  parameter. For concrete runs, the order of plain dotted versions such as \<open>2.1.0\<close>: the
  numbers are compared from the left.
\<close>

fun those_numbers :: "string list \<Rightarrow> nat list option" where
  "those_numbers [] = Some []"
| "those_numbers (p # ps) =
     (case parse_number p of
        None \<Rightarrow> None
      | Some n \<Rightarrow> (case those_numbers ps of None \<Rightarrow> None | Some ns \<Rightarrow> Some (n # ns)))"

fun numbers_gt :: "nat list \<Rightarrow> nat list \<Rightarrow> bool" where
  "numbers_gt (x # xs) (y # ys) = (x > y \<or> (x = y \<and> numbers_gt xs ys))"
| "numbers_gt xs ys = False"

definition dotted_gt :: "string \<Rightarrow> string \<Rightarrow> bool" where
  "dotted_gt a b =
     (case (those_numbers (split_on CHR ''.'' a), those_numbers (split_on CHR ''.'' b)) of
        (Some [a1, a2, a3], Some [b1, b2, b3]) \<Rightarrow> numbers_gt [a1, a2, a3] [b1, b2, b3]
      | _ \<Rightarrow> False)"

section \<open>Thrown values\<close>

text \<open>
  A function that can throw returns \<open>thrown + 'a\<close>: \<open>Inl\<close> is the value thrown, \<open>Inr\<close> the
  value returned.
\<close>

datatype thrown =
    AssertionFailed
  | Rethrown reason
  | UnexpectedErrorArray
  | ResolverFailure string

text \<open>
  Modelled from the spec: \<open>assertDefined\<close> of \<open>@definitelytyped/utils\<close> is not among the
  sources. By its name and its use it returns a defined value and throws on \<open>undefined\<close>; the
  spec counts an internal invariant violation among the fatal errors that propagate uncaught.
\<close>

definition assertDefined :: "'a option \<Rightarrow> thrown + 'a" where
  "assertDefined x = (case x of None \<Rightarrow> Inl AssertionFailed | Some v \<Rightarrow> Inr v)"

section \<open>\<open>getNotNeededPackages\<close> (lines 170--187)\<close>

text \<open>\<open>deletions.map((p) => assertDefined(p.typesDirectoryName))\<close>: the first throw ends it.\<close>

fun map_assertDefined :: "PackageId list \<Rightarrow> thrown + string list" where
  "map_assertDefined [] = Inr []"
| "map_assertDefined (p # ps) =
     (case assertDefined (typesDirectoryName p) of
        Inl e \<Rightarrow> Inl e
      | Inr n \<Rightarrow> (case map_assertDefined ps of Inl e \<Rightarrow> Inl e | Inr ns \<Rightarrow> Inr (n # ns)))"

record notNeeded_state =
  notNeededs :: "NotNeededPackage list"
  nn_errors :: "string list"

definition delete_all_files_message :: "string \<Rightarrow> string" where
  "delete_all_files_message p =
     ''Please delete all files in '' @ p @ '' when adding it to notNeededPackages.json.''"

text \<open>One iteration of the loop of lines 177--185.\<close>

definition getNotNeededPackages_step :: "AllPackages \<Rightarrow> notNeeded_state \<Rightarrow> string \<Rightarrow> notNeeded_state" where
  "getNotNeededPackages_step allPackages s p =
     (let hasTyping =
            hasTypingFor allPackages \<lparr>typesDirectoryName = Some p, PackageId.version = Wildcard\<rparr>;
          notNeeded = getNotNeededPackage allPackages p
      in (case notNeeded of
            Some nn \<Rightarrow>
              if hasTyping then s\<lparr>nn_errors := nn_errors s @ [delete_all_files_message p]\<rparr>
              else s\<lparr>notNeededs := notNeededs s @ [nn]\<rparr>
          | None \<Rightarrow> s))"

fun getNotNeededPackages_loop :: "AllPackages \<Rightarrow> notNeeded_state \<Rightarrow> string list \<Rightarrow> notNeeded_state" where
  "getNotNeededPackages_loop allPackages s [] = s"
| "getNotNeededPackages_loop allPackages s (p # ps) =
     getNotNeededPackages_loop allPackages (getNotNeededPackages_step allPackages s p) ps"

datatype NotNeededResult =
    NotNeededErrors "string list"
  | NotNeededs "NotNeededPackage list"

definition getNotNeededPackages :: "AllPackages \<Rightarrow> PackageId list \<Rightarrow> thrown + NotNeededResult" where
  "getNotNeededPackages allPackages dels =
     (case map_assertDefined dels of
        Inl e \<Rightarrow> Inl e
      | Inr names \<Rightarrow>
          (let s = getNotNeededPackages_loop allPackages
                     \<lparr>notNeededs = [], nn_errors = []\<rparr> (new_Set names)
           in Inr (if nn_errors s \<noteq> [] then NotNeededErrors (nn_errors s)
                   else NotNeededs (notNeededs s))))"

section \<open>\<open>checkNotNeededPackage\<close> (lines 138--164)\<close>

text \<open>
  \<open>pacote.manifest\<close> is the parameter \<open>manifest\<close>: for a package spec it resolves to a
  manifest (\<open>Inr\<close>) or rejects with a reason (\<open>Inl\<close>). \<open>semver.gt\<close> is the parameter \<open>gt\<close>.
\<close>

definition no_npm_package_message :: "NotNeededPackage \<Rightarrow> string" where
  "no_npm_package_message unneeded =
     ''The entry for '' @ name unneeded @ '' in notNeededPackages.json has'' @ newline @
     [CHR 0x22] @ ''libraryName'' @ [CHR 0x22] @ '': '' @
     [CHR 0x22] @ libraryName unneeded @ [CHR 0x22] @
     '', but there is no npm package with this name.'' @ newline @
     ''Unneeded packages have to be replaced with a package on npm.''"

definition version_not_on_npm_message :: "NotNeededPackage \<Rightarrow> string" where
  "version_not_on_npm_message unneeded =
     ''The specified version '' @ NotNeededPackage.version unneeded @ '' of '' @
     libraryName unneeded @ '' is not on npm.''"

definition types_not_found_message :: "NotNeededPackage \<Rightarrow> string" where
  "types_not_found_message unneeded =
     ''Unexpected error: @types package not found for '' @ name unneeded"

definition must_be_newer_message :: "NotNeededPackage \<Rightarrow> string \<Rightarrow> string" where
  "must_be_newer_message unneeded typings_version =
     ''The specified version '' @ NotNeededPackage.version unneeded @ '' of '' @
     libraryName unneeded @ '' must be newer than the version'' @ newline @
     ''it is supposed to replace, '' @ typings_version @ '' of '' @ name unneeded @ ''.''"

text \<open>
  The first lookup with its \<open>catch\<close> (lines 140--150): a manifest, a message, or a throw.
\<close>

definition replacement_lookup ::
  "(string \<Rightarrow> reason + Manifest) \<Rightarrow> NotNeededPackage \<Rightarrow> thrown + (string + Manifest)" where
  "replacement_lookup manifest unneeded =
     (case manifest (libraryName unneeded @ ''@'' @ NotNeededPackage.version unneeded) of
        Inr m \<Rightarrow> Inr (Inr m)
      | Inl r \<Rightarrow>
          if code r = Some ''E404'' then Inr (Inl (no_npm_package_message unneeded))
          else if code r = Some ''ETARGET'' then Inr (Inl (version_not_on_npm_message unneeded))
          else Inl (Rethrown r))"

text \<open>The second lookup with its \<open>catch\<close> (lines 152--155).\<close>

definition typings_lookup ::
  "(string \<Rightarrow> reason + Manifest) \<Rightarrow> NotNeededPackage \<Rightarrow> thrown + (string + Manifest)" where
  "typings_lookup manifest unneeded =
     (case manifest (name unneeded) of
        Inr m \<Rightarrow> Inr (Inr m)
      | Inl r \<Rightarrow>
          if code r = Some ''E404'' then Inr (Inl (types_not_found_message unneeded))
          else Inl (Rethrown r))"

definition checkNotNeededPackage ::
  "(string \<Rightarrow> reason + Manifest) \<Rightarrow> (string \<Rightarrow> string \<Rightarrow> bool) \<Rightarrow> NotNeededPackage \<Rightarrow>
   thrown + string list" where
  "checkNotNeededPackage manifest gt unneeded =
     (case replacement_lookup manifest unneeded of
        Inl e \<Rightarrow> Inl e
      | Inr replacementPackage \<Rightarrow>
          (let errors1 = (case replacementPackage of Inl msg \<Rightarrow> [msg] | Inr m \<Rightarrow> [])
           in (case typings_lookup manifest unneeded of
                 Inl e \<Rightarrow> Inl e
               | Inr (Inl msg) \<Rightarrow> Inr (errors1 @ [msg])
               | Inr (Inr typings) \<Rightarrow>
                   if \<not> gt (NotNeededPackage.version unneeded) (Manifest.version typings)
                   then Inr (errors1 @ [must_be_newer_message unneeded (Manifest.version typings)])
                   else Inr errors1)))"

section \<open>\<open>getAffectedPackagesFromDiff\<close> (lines 103--131)\<close>









section \<open>The properties, in the words of the specification\<close>

text \<open>
  What an event writes: the pairs of key and record it sets in the additions and in the
  deletions, in order. An added or moved file that passes the test of line 73 and maps to a
  package writes that package to the additions; a deleted one writes it to the deletions; a
  move whose destination is so recorded writes the package of its source, when there is one,
  to the deletions.
\<close>

definition additions_written ::
  "(string \<Rightarrow> PackageId option) \<Rightarrow> (DirectoryParsedTypingVersion \<Rightarrow> string) \<Rightarrow>
   GitDiff \<Rightarrow> (string \<times> PackageId) list" where
  "additions_written gdf fmt d =
     (if test_types_sep (diff_file d) \<and> (status d = ''A'' \<or> status d = ''R'')
      then (case gdf (diff_file d) of
              Some dep \<Rightarrow> [(package_key fmt dep, dep)]
            | None \<Rightarrow> [])
      else [])"

fun deletions_written ::
  "(string \<Rightarrow> PackageId option) \<Rightarrow> (DirectoryParsedTypingVersion \<Rightarrow> string) \<Rightarrow>
   GitDiff \<Rightarrow> (string \<times> PackageId) list" where
  "deletions_written gdf fmt (Diff_D f) =
     (if test_types_sep f
      then (case gdf f of Some dep \<Rightarrow> [(package_key fmt dep, dep)] | None \<Rightarrow> [])
      else [])"
| "deletions_written gdf fmt (Diff_R f src) =
     (if test_types_sep f \<and> gdf f \<noteq> None
      then (case gdf src of Some srcDep \<Rightarrow> [(package_key fmt srcDep, srcDep)] | None \<Rightarrow> [])
      else [])"
| "deletions_written gdf fmt d = []"

definition additions_writes ::
  "(string \<Rightarrow> PackageId option) \<Rightarrow> (DirectoryParsedTypingVersion \<Rightarrow> string) \<Rightarrow>
   GitDiff list \<Rightarrow> (string \<times> PackageId) list" where
  "additions_writes gdf fmt diffs = concat (map (additions_written gdf fmt) diffs)"

definition deletions_writes ::
  "(string \<Rightarrow> PackageId option) \<Rightarrow> (DirectoryParsedTypingVersion \<Rightarrow> string) \<Rightarrow>
   GitDiff list \<Rightarrow> (string \<times> PackageId) list" where
  "deletions_writes gdf fmt diffs = concat (map (deletions_written gdf fmt) diffs)"

text \<open>Last write wins: of the writes to a key, the latest gives the record.\<close>

fun last_write :: "('k \<times> 'v) list \<Rightarrow> 'k \<Rightarrow> 'v option" where
  "last_write [] k = None"
| "last_write ((k', v) # ws) k =
     (case last_write ws k of
        Some v' \<Rightarrow> Some v'
      | None \<Rightarrow> if k' = k then Some v else None)"

text \<open>
  An event that \<open>gitChanges\<close> answers with an error: it passes the test of line 73, it is
  not a modification, and its file maps to no package.
\<close>

definition rejected :: "(string \<Rightarrow> PackageId option) \<Rightarrow> GitDiff \<Rightarrow> bool" where
  "rejected gdf diff =
     (test_types_sep (diff_file diff) \<and> status diff \<noteq> ''M'' \<and> gdf (diff_file diff) = None)"

text \<open>
  The three cases of the consistency check, as the specification words them: a package that
  still has typings and is listed as deprecated is an error; one that is listed as deprecated
  and has no typings left is accepted; any other is skipped.
\<close>

datatype verdict =
    StructuralError string
  | Accepted NotNeededPackage
  | Skipped

definition still_has_typings :: "AllPackages \<Rightarrow> string \<Rightarrow> bool" where
  "still_has_typings allPackages p =
     hasTypingFor allPackages \<lparr>typesDirectoryName = Some p, PackageId.version = Wildcard\<rparr>"

definition deletion_verdict :: "AllPackages \<Rightarrow> string \<Rightarrow> verdict" where
  "deletion_verdict allPackages p =
     (case getNotNeededPackage allPackages p of
        None \<Rightarrow> Skipped
      | Some nn \<Rightarrow>
          if still_has_typings allPackages p then StructuralError (delete_all_files_message p)
          else Accepted nn)"

fun verdict_errors :: "verdict list \<Rightarrow> string list" where
  "verdict_errors [] = []"
| "verdict_errors (StructuralError m # vs) = m # verdict_errors vs"
| "verdict_errors (v # vs) = verdict_errors vs"

fun verdict_accepted :: "verdict list \<Rightarrow> NotNeededPackage list" where
  "verdict_accepted [] = []"
| "verdict_accepted (Accepted nn # vs) = nn # verdict_accepted vs"
| "verdict_accepted (v # vs) = verdict_accepted vs"

definition consistency_check :: "AllPackages \<Rightarrow> string list \<Rightarrow> NotNeededResult" where
  "consistency_check allPackages names =
     (let vs = map (deletion_verdict allPackages) (new_Set names)
      in if verdict_errors vs \<noteq> [] then NotNeededErrors (verdict_errors vs)
         else NotNeededs (verdict_accepted vs))"

section \<open>A registry and a package index for concrete runs\<close>

definition example_manifest :: "string \<Rightarrow> reason + Manifest" where
  "example_manifest spec =
     (if spec = ''lib-bar@2.0.0'' then Inr \<lparr>Manifest.version = ''2.0.0''\<rparr>
      else if spec = ''lib-bar@3.0.0'' then Inr \<lparr>Manifest.version = ''3.0.0''\<rparr>
      else if spec = ''@types/bar'' then Inr \<lparr>Manifest.version = ''2.1.0''\<rparr>
      else if spec = ''lib-bar@9.9.9''
        then Inl \<lparr>code = Some ''ETARGET'', message = ''No matching version found''\<rparr>
      else if spec = ''lib-down@1.0.0''
        then Inl \<lparr>code = Some ''ECONNRESET'', message = ''socket hang up''\<rparr>
      else if spec = ''@types/down''
        then Inl \<lparr>code = Some ''ETIMEDOUT'', message = ''request timed out''\<rparr>
      else Inl \<lparr>code = Some ''E404'', message = ''Not found''\<rparr>)"

definition example_allPackages :: AllPackages where
  "example_allPackages =
     \<lparr>hasTypingFor = (\<lambda>p. typesDirectoryName p = Some ''live''),
      getNotNeededPackage =
        (\<lambda>p. if p = ''bar''
              then Some \<lparr>name = ''@types/bar'', libraryName = ''lib-bar'',
                         NotNeededPackage.version = ''2.0.0''\<rparr>
              else if p = ''live''
              then Some \<lparr>name = ''@types/live'', libraryName = ''live'',
                         NotNeededPackage.version = ''1.0.0''\<rparr>
              else None)\<rparr>"



section \<open>Facts about the containers\<close>

lemma Map_set_keys:
  "map fst (Map_set k v m) = (if k \<in> set (map fst m) then map fst m else map fst m @ [k])"
  by (induction m) (force+)

lemma distinct_Map_set: "distinct (map fst m) \<Longrightarrow> distinct (map fst (Map_set k v m))"
  by (simp add: Map_set_keys)

lemma map_of_Map_set: "map_of (Map_set k v m) = (map_of m)(k \<mapsto> v)"
  by (induction m) (auto simp: fun_eq_iff)

lemma Map_set_all_append:
  "Map_set_all m (xs @ ys) = Map_set_all (Map_set_all m xs) ys"
  by (induction xs arbitrary: m) auto

lemma Map_set_key_list: "map fst (Map_set k v m) = Set_add k (map fst m)"
  by (simp add: Map_set_keys Set_add_def)

lemma Map_set_all_keys:
  "map fst (Map_set_all m ws) = Set_add_all (map fst m) (map fst ws)"
  by (induction ws arbitrary: m) (auto simp: Map_set_key_list)

lemma Map_get_Map_set_any:
  "Map_get (Map_set k v m) k' = (if k' = k then Some v else Map_get m k')"
  by (simp add: Map_get_def map_of_Map_set)

lemma Map_get_Map_set_all:
  "Map_get (Map_set_all m ws) k =
   (case last_write ws k of Some v \<Rightarrow> Some v | None \<Rightarrow> Map_get m k)"
  by (induction ws arbitrary: m) (auto simp: Map_get_Map_set_any split: option.splits)

section \<open>Facts about the loop of \<open>gitChanges\<close>\<close>

lemma add_move_source_additions: "additions (add_move_source gdf fmt s d) = additions s"
  by (cases d) (auto split: option.splits)

lemma add_move_source_errors: "errors (add_move_source gdf fmt s d) = errors s"
  by (cases d) (auto split: option.splits)

lemma add_move_source_distinct:
  "distinct (map fst (deletions s)) \<Longrightarrow>
   distinct (map fst (deletions (add_move_source gdf fmt s d)))"
  by (cases d) (auto split: option.splits simp: distinct_Map_set)

lemma step_distinct:
  "distinct (map fst (deletions s)) \<Longrightarrow> distinct (map fst (additions s)) \<Longrightarrow>
   distinct (map fst (deletions (gitChanges_step gdf fmt s d))) \<and>
   distinct (map fst (additions (gitChanges_step gdf fmt s d)))"
  by (auto simp: gitChanges_step_def add_move_source_additions add_move_source_distinct
      distinct_Map_set split: option.splits)

lemma loop_distinct:
  "distinct (map fst (deletions s)) \<Longrightarrow> distinct (map fst (additions s)) \<Longrightarrow>
   distinct (map fst (deletions (gitChanges_loop gdf fmt s ds))) \<and>
   distinct (map fst (additions (gitChanges_loop gdf fmt s ds)))"
proof (induction ds arbitrary: s)
  case Nil then show ?case by simp
next
  case (Cons d ds)
  from step_distinct[OF Cons.prems, of gdf fmt d] Cons.IH show ?case by simp
qed

lemma loop_append:
  "gitChanges_loop gdf fmt s (xs @ ys) =
   gitChanges_loop gdf fmt (gitChanges_loop gdf fmt s xs) ys"
  by (induction xs arbitrary: s) auto

lemma step_additions_written:
  "additions (gitChanges_step gdf fmt s d) =
   Map_set_all (additions s) (additions_written gdf fmt d)"
  by (cases d) (auto simp: gitChanges_step_def additions_written_def split: option.splits)

lemma step_deletions_written:
  "deletions (gitChanges_step gdf fmt s d) =
   Map_set_all (deletions s) (deletions_written gdf fmt d)"
  by (cases d) (auto simp: gitChanges_step_def split: option.splits)

lemma loop_additions_writes:
  "additions (gitChanges_loop gdf fmt s ds) =
   Map_set_all (additions s) (additions_writes gdf fmt ds)"
  by (induction ds arbitrary: s)
    (auto simp: additions_writes_def step_additions_written Map_set_all_append)

lemma loop_deletions_writes:
  "deletions (gitChanges_loop gdf fmt s ds) =
   Map_set_all (deletions s) (deletions_writes gdf fmt ds)"
  by (induction ds arbitrary: s)
    (auto simp: deletions_writes_def step_deletions_written Map_set_all_append)

lemma step_errors:
  "errors (gitChanges_step gdf fmt s d) =
   errors s @ (if rejected gdf d then [unexpected_file_message d] else [])"
  by (auto simp: gitChanges_step_def rejected_def add_move_source_errors split: option.splits)

lemma loop_errors:
  "errors (gitChanges_loop gdf fmt s ds) =
   errors s @ map unexpected_file_message (filter (rejected gdf) ds)"
  by (induction ds arbitrary: s) (auto simp: step_errors)

lemma step_ignored:
  "status d = ''M'' \<or> \<not> test_types_sep (diff_file d) \<Longrightarrow> gitChanges_step gdf fmt s d = s"
  by (auto simp: gitChanges_step_def)

text \<open>
  The grammar of the specification maps only paths that begin with \<open>types/\<close>, and these pass
  the test of line 73.
\<close>

lemma split_on_second:
  "split_on sep p = x # y # zs \<Longrightarrow> \<exists>r. p = x @ sep # r"
proof (induction p arbitrary: x y zs)
  case Nil then show ?case by simp
next
  case (Cons c cs)
  show ?case
  proof (cases "c = sep")
    case True
    with Cons.prems show ?thesis by auto
  next
    case False
    with Cons.prems obtain p ps where sp: "split_on sep cs = p # ps" and x: "x = c # p" and ps: "ps = y # zs"
      by (auto split: list.splits)
    from Cons.IH[of p y zs] sp ps obtain r where "cs = p @ sep # r" by auto
    with x show ?thesis by auto
  qed
qed

lemma starts_with_append: "starts_with p (p @ r)"
  by (induction p) auto

lemma test_types_sep_prefix: "starts_with ''types/'' p \<Longrightarrow> test_types_sep p"
  by (cases p) auto

lemma getDependencyFromFile_under_types:
  "getDependencyFromFile p = Some dep \<Longrightarrow> test_types_sep p"
proof -
  assume a: "getDependencyFromFile p = Some dep"
  then obtain root dir sub rest where s: "split_on CHR ''/'' p = root # dir # sub # rest" and r: "root = ''types''"
    by (auto simp: getDependencyFromFile_def split: list.splits if_splits)
  from split_on_second[OF s] r obtain t where "p = ''types'' @ CHR ''/'' # t" by auto
  then have "p = ''types/'' @ t" by simp
  then have "starts_with ''types/'' p" using starts_with_append[of "''types/''" t] by simp
  then show ?thesis by (rule test_types_sep_prefix)
qed

section \<open>The change classifier\<close>

text \<open>
  Claim C1, as the code has it. While \<open>gitChanges\<close> runs, after any sequence of events, the
  keys of the additions are the keys written to the additions, each once, in the order of their
  first write, and the record under a key is the one of the last write to that key; the same
  holds of the deletions with the writes to the deletions. Each map is determined by its own
  writes alone: a write to one map leaves the other as it is, so a key can stand in both.
\<close>

theorem gitChanges_key_once_per_map:
  "map fst (additions (gitChanges_loop gdf fmt initial_state diffs)) =
     new_Set (map fst (additions_writes gdf fmt diffs)) \<and>
   distinct (map fst (additions (gitChanges_loop gdf fmt initial_state diffs))) \<and>
   Map_get (additions (gitChanges_loop gdf fmt initial_state diffs)) k =
     last_write (additions_writes gdf fmt diffs) k \<and>
   map fst (deletions (gitChanges_loop gdf fmt initial_state diffs)) =
     new_Set (map fst (deletions_writes gdf fmt diffs)) \<and>
   distinct (map fst (deletions (gitChanges_loop gdf fmt initial_state diffs))) \<and>
   Map_get (deletions (gitChanges_loop gdf fmt initial_state diffs)) k =
     last_write (deletions_writes gdf fmt diffs) k"
proof -
  have init: "distinct (map fst (deletions initial_state))"
    "distinct (map fst (additions initial_state))"
    by (simp_all add: initial_state_def)
  have e: "additions initial_state = []" "deletions initial_state = []"
    by (simp_all add: initial_state_def)
  have g: "Map_get [] k = (None :: PackageId option)"
    by (simp add: Map_get_def)
  show ?thesis
    using loop_distinct[OF init, of gdf fmt diffs]
    by (simp add: loop_additions_writes loop_deletions_writes Map_set_all_keys
        Map_get_Map_set_all e g new_Set_def split: option.splits)
qed

theorem gitChanges_key_once_per_map_witness:
  "map fst (additions (gitChanges_loop getDependencyFromFile format_major_only initial_state
     [Diff_A ''types/foo/v2.0/a.d.ts'', Diff_A ''types/bar/index.d.ts'',
      Diff_D ''types/foo/v2.0/a.d.ts'', Diff_R ''types/baz/index.d.ts'' ''types/bar/old.d.ts'',
      Diff_A ''types/foo/v2.1/b.d.ts''])) = [''foo/v2'', ''bar/v*'', ''baz/v*''] \<and>
   Map_get (additions (gitChanges_loop getDependencyFromFile format_major_only initial_state
     [Diff_A ''types/foo/v2.0/a.d.ts'', Diff_A ''types/bar/index.d.ts'',
      Diff_D ''types/foo/v2.0/a.d.ts'', Diff_R ''types/baz/index.d.ts'' ''types/bar/old.d.ts'',
      Diff_A ''types/foo/v2.1/b.d.ts''])) ''foo/v2'' =
     Some \<lparr>typesDirectoryName = Some ''foo'',
           PackageId.version = Exact \<lparr>major = 2, minor = Some 1\<rparr>\<rparr> \<and>
   Map_get (additions (gitChanges_loop getDependencyFromFile format_major_only initial_state
     [Diff_A ''types/foo/v2.0/a.d.ts'', Diff_A ''types/bar/index.d.ts'',
      Diff_D ''types/foo/v2.0/a.d.ts'', Diff_R ''types/baz/index.d.ts'' ''types/bar/old.d.ts'',
      Diff_A ''types/foo/v2.1/b.d.ts''])) ''bar/v*'' =
     Some \<lparr>typesDirectoryName = Some ''bar'', PackageId.version = Wildcard\<rparr> \<and>
   map fst (deletions (gitChanges_loop getDependencyFromFile format_major_only initial_state
     [Diff_A ''types/foo/v2.0/a.d.ts'', Diff_A ''types/bar/index.d.ts'',
      Diff_D ''types/foo/v2.0/a.d.ts'', Diff_R ''types/baz/index.d.ts'' ''types/bar/old.d.ts'',
      Diff_A ''types/foo/v2.1/b.d.ts''])) = [''foo/v2'', ''bar/v*''] \<and>
   Map_get (deletions (gitChanges_loop getDependencyFromFile format_major_only initial_state
     [Diff_A ''types/foo/v2.0/a.d.ts'', Diff_A ''types/bar/index.d.ts'',
      Diff_D ''types/foo/v2.0/a.d.ts'', Diff_R ''types/baz/index.d.ts'' ''types/bar/old.d.ts'',
      Diff_A ''types/foo/v2.1/b.d.ts''])) ''foo/v2'' =
     Some \<lparr>typesDirectoryName = Some ''foo'',
           PackageId.version = Exact \<lparr>major = 2, minor = Some 0\<rparr>\<rparr>"
proof -
  let ?diffs = "[Diff_A ''types/foo/v2.0/a.d.ts'', Diff_A ''types/bar/index.d.ts'',
      Diff_D ''types/foo/v2.0/a.d.ts'', Diff_R ''types/baz/index.d.ts'' ''types/bar/old.d.ts'',
      Diff_A ''types/foo/v2.1/b.d.ts'']"
  let ?aw = "additions_writes getDependencyFromFile format_major_only ?diffs"
  let ?dw = "deletions_writes getDependencyFromFile format_major_only ?diffs"
  have a1: "new_Set (map fst ?aw) = [''foo/v2'', ''bar/v*'', ''baz/v*'']"
    by code_simp
  have a2: "last_write ?aw ''foo/v2'' =
      Some \<lparr>typesDirectoryName = Some ''foo'',
            PackageId.version = Exact \<lparr>major = 2, minor = Some 1\<rparr>\<rparr>"
    by code_simp
  have a3: "last_write ?aw ''bar/v*'' =
      Some \<lparr>typesDirectoryName = Some ''bar'', PackageId.version = Wildcard\<rparr>"
    by code_simp
  have d1: "new_Set (map fst ?dw) = [''foo/v2'', ''bar/v*'']"
    by code_simp
  have d2: "last_write ?dw ''foo/v2'' =
      Some \<lparr>typesDirectoryName = Some ''foo'',
            PackageId.version = Exact \<lparr>major = 2, minor = Some 0\<rparr>\<rparr>"
    by code_simp
  from gitChanges_key_once_per_map[of getDependencyFromFile format_major_only ?diffs "''foo/v2''"]
    gitChanges_key_once_per_map[of getDependencyFromFile format_major_only ?diffs "''bar/v*''"]
  show ?thesis
    unfolding a1 a2 a3 d1 d2 by blast
qed

text \<open>
  Claim C1 as it is stated fails: a deletion and an addition in the same package leave the key
  \<open>foo/v*\<close> in the deletions and in the additions at once.
\<close>

theorem gitChanges_key_in_both_maps:
  "Map_has (deletions (gitChanges_loop getDependencyFromFile formatTypingVersion initial_state
      [Diff_D ''types/foo/a.d.ts'', Diff_A ''types/foo/b.d.ts''])) ''foo/v*'' \<and>
   Map_has (additions (gitChanges_loop getDependencyFromFile formatTypingVersion initial_state
      [Diff_D ''types/foo/a.d.ts'', Diff_A ''types/foo/b.d.ts''])) ''foo/v*''"
  by code_simp

text \<open>
  Claim C2, as the code has it. The errors of \<open>gitChanges\<close> are one message for each event
  that passes the test of line 73, is not a modification and has a file that maps to no
  package, in the order of the input; when there is such an event the result holds these
  errors alone, and otherwise it holds the deletions and the additions.
\<close>

theorem gitChanges_errors_in_order:
  "errors (gitChanges_loop gdf fmt initial_state diffs) =
     map unexpected_file_message (filter (rejected gdf) diffs) \<and>
   gitChanges gdf fmt diffs =
     (if list_ex (rejected gdf) diffs
      then GitErrors (map unexpected_file_message (filter (rejected gdf) diffs))
      else GitChanges
             (Map_values (deletions (gitChanges_loop gdf fmt initial_state diffs)))
             (Map_values (additions (gitChanges_loop gdf fmt initial_state diffs))))"
  by (auto simp: gitChanges_def Let_def loop_errors initial_state_def list_ex_iff filter_empty_conv)

theorem gitChanges_errors_in_order_witness:
  "gitChanges getDependencyFromFile formatTypingVersion
     [Diff_A ''types/foo/index.d.ts'', Diff_D ''types/stray.txt'', Diff_M ''types/stray.txt'',
      Diff_A ''other/unrelated.txt'', Diff_R ''types/README.md'' ''types/foo/README.md'']
   = GitErrors
       [''Unexpected file deleted: types/stray.txt'' @ newline @
          ''You should only delete files that are a part of removed packages.'',
        ''Unexpected file added: types/README.md'' @ newline @
          ''You should only add files that are part of packages.'']"
proof -
  let ?diffs = "[Diff_A ''types/foo/index.d.ts'', Diff_D ''types/stray.txt'', Diff_M ''types/stray.txt'',
      Diff_A ''other/unrelated.txt'', Diff_R ''types/README.md'' ''types/foo/README.md'']"
  have f: "filter (rejected getDependencyFromFile) ?diffs =
      [Diff_D ''types/stray.txt'', Diff_R ''types/README.md'' ''types/foo/README.md'']"
    by code_simp
  have e: "list_ex (rejected getDependencyFromFile) ?diffs"
    by code_simp
  show ?thesis
    using gitChanges_errors_in_order[of getDependencyFromFile formatTypingVersion ?diffs] f e
    by (simp add: unexpected_file_message_def)
qed

text \<open>
  Claim C2 as it is stated fails at its own example: \<open>other/unrelated.txt\<close> does not match
  the grammar, and \<open>gitChanges\<close> skips it without an error and returns the two empty lists.
\<close>

theorem gitChanges_unrelated_path_no_error:
  "getDependencyFromFile ''other/unrelated.txt'' = None \<and>
   gitChanges getDependencyFromFile formatTypingVersion [Diff_A ''other/unrelated.txt'']
     = GitChanges [] []"
  by code_simp

text \<open>
  Claim C4. When the paths \<open>a\<close> and \<open>b\<close> both map to a package and both pass the test of
  line 73, a move from \<open>a\<close> to \<open>b\<close> gives what the deletion of \<open>a\<close> followed by the addition of
  \<open>b\<close> gives: the package of \<open>a\<close> in the deletions and the package of \<open>b\<close> in the additions.
\<close>

theorem gitChanges_rename_equivalence:
  "gdf a = Some da \<Longrightarrow> gdf b = Some db \<Longrightarrow> test_types_sep a \<Longrightarrow> test_types_sep b \<Longrightarrow>
   gitChanges gdf fmt [Diff_R b a] = gitChanges gdf fmt [Diff_D a, Diff_A b] \<and>
   gitChanges gdf fmt [Diff_R b a] = GitChanges [da] [db]"
  by (simp add: gitChanges_def gitChanges_step_def initial_state_def Map_values_def)

theorem gitChanges_rename_equivalence_witness:
  "gitChanges getDependencyFromFile formatTypingVersion
     [Diff_R ''types/foo/v2/index.d.ts'' ''types/foo/index.d.ts''] =
   gitChanges getDependencyFromFile formatTypingVersion
     [Diff_D ''types/foo/index.d.ts'', Diff_A ''types/foo/v2/index.d.ts''] \<and>
   gitChanges getDependencyFromFile formatTypingVersion
     [Diff_R ''types/foo/v2/index.d.ts'' ''types/foo/index.d.ts''] =
   GitChanges [\<lparr>typesDirectoryName = Some ''foo'', PackageId.version = Wildcard\<rparr>]
     [\<lparr>typesDirectoryName = Some ''foo'',
       PackageId.version = Exact \<lparr>major = 2, minor = None\<rparr>\<rparr>]"
proof -
  have a: "getDependencyFromFile ''types/foo/index.d.ts'' =
      Some \<lparr>typesDirectoryName = Some ''foo'', PackageId.version = Wildcard\<rparr>"
    by code_simp
  have b: "getDependencyFromFile ''types/foo/v2/index.d.ts'' =
      Some \<lparr>typesDirectoryName = Some ''foo'',
        PackageId.version = Exact \<lparr>major = 2, minor = None\<rparr>\<rparr>"
    by code_simp
  have ta: "test_types_sep ''types/foo/index.d.ts''" by simp
  have tb: "test_types_sep ''types/foo/v2/index.d.ts''" by simp
  show ?thesis by (rule gitChanges_rename_equivalence[OF a b ta tb])
qed

text \<open>
  Claim C8, as the code has it. An event that is a modification, or whose path holds neither
  \<open>types/\<close> nor \<open>types\<close> with a backslash anywhere, leaves the state of the loop as it is:
  no deletion, no addition, no error; the result of \<open>gitChanges\<close> is the result without the
  event.
\<close>

theorem gitChanges_skips_event:
  "status d = ''M'' \<or> \<not> test_types_sep (diff_file d) \<Longrightarrow>
   gitChanges_step gdf fmt s d = s \<and>
   gitChanges_loop gdf fmt s (xs @ d # ys) = gitChanges_loop gdf fmt s (xs @ ys) \<and>
   gitChanges gdf fmt (xs @ d # ys) = gitChanges gdf fmt (xs @ ys)"
  by (simp add: step_ignored loop_append gitChanges_def)

theorem gitChanges_skips_event_witness:
  "gitChanges getDependencyFromFile formatTypingVersion
     ([Diff_A ''types/foo/index.d.ts''] @ Diff_M ''types/foo/index.d.ts'' #
      [Diff_D ''types/bar/index.d.ts'']) =
   gitChanges getDependencyFromFile formatTypingVersion
     ([Diff_A ''types/foo/index.d.ts''] @ [Diff_D ''types/bar/index.d.ts'']) \<and>
   gitChanges getDependencyFromFile formatTypingVersion
     ([] @ Diff_D ''other/unrelated.txt'' # []) =
   gitChanges getDependencyFromFile formatTypingVersion ([] @ [])"
proof -
  have m: "status (Diff_M ''types/foo/index.d.ts'') = ''M'' \<or>
      \<not> test_types_sep (diff_file (Diff_M ''types/foo/index.d.ts''))"
    by simp
  have u: "status (Diff_D ''other/unrelated.txt'') = ''M'' \<or>
      \<not> test_types_sep (diff_file (Diff_D ''other/unrelated.txt''))"
    by simp
  show ?thesis
    using gitChanges_skips_event[OF m, of getDependencyFromFile formatTypingVersion initial_state
        "[Diff_A ''types/foo/index.d.ts'']" "[Diff_D ''types/bar/index.d.ts'']"]
      gitChanges_skips_event[OF u, of getDependencyFromFile formatTypingVersion initial_state "[]" "[]"]
    by simp
qed

text \<open>
  Claim C8 as it is stated fails: \<open>docs/types/readme.md\<close> is not under the root \<open>types\<close>,
  yet it passes the unanchored test of line 73, and its addition gives an error.
\<close>

theorem gitChanges_outside_root_error:
  "\<not> starts_with ''types/'' ''docs/types/readme.md'' \<and>
   gitChanges getDependencyFromFile formatTypingVersion [Diff_A ''docs/types/readme.md''] =
   GitErrors [''Unexpected file added: docs/types/readme.md'' @ newline @
     ''You should only add files that are part of packages.'']"
  by code_simp

text \<open>
  Claim C9. For a move whose destination passes the test of line 73 (as every path under the
  root does) and maps to a package, and whose source maps to none, \<open>gitChanges\<close> records the
  destination in the additions and nothing else: the deletions and the errors stay as they
  were.
\<close>

theorem gitChanges_rename_source_dropped:
  "test_types_sep f \<Longrightarrow> gdf f = Some dep \<Longrightarrow> gdf src = None \<Longrightarrow>
   gitChanges_step gdf fmt s (Diff_R f src) =
     s\<lparr>additions := Map_set (package_key fmt dep) dep (additions s)\<rparr> \<and>
   gitChanges gdf fmt [Diff_R f src] = GitChanges [] [dep]"
  by (simp add: gitChanges_def gitChanges_step_def initial_state_def Map_values_def)

theorem gitChanges_rename_source_dropped_witness:
  "gitChanges getDependencyFromFile formatTypingVersion
     [Diff_R ''types/foo/index.d.ts'' ''types/foo.d.ts''] =
   GitChanges [] [\<lparr>typesDirectoryName = Some ''foo'', PackageId.version = Wildcard\<rparr>] \<and>
   gitChanges_step getDependencyFromFile formatTypingVersion initial_state
     (Diff_R ''types/foo/index.d.ts'' ''types/foo.d.ts'') =
   \<lparr>deletions = [],
    additions = [(''foo/v*'', \<lparr>typesDirectoryName = Some ''foo'', PackageId.version = Wildcard\<rparr>)],
    errors = []\<rparr>"
proof -
  have a: "getDependencyFromFile ''types/foo/index.d.ts'' =
      Some \<lparr>typesDirectoryName = Some ''foo'', PackageId.version = Wildcard\<rparr>"
    by code_simp
  have b: "getDependencyFromFile ''types/foo.d.ts'' = None"
    by code_simp
  have t: "test_types_sep ''types/foo/index.d.ts''" by simp
  show ?thesis
    using gitChanges_rename_source_dropped[OF t a b, of formatTypingVersion initial_state]
    by (simp add: initial_state_def package_key_def)
qed

section \<open>The deprecation validator\<close>

text \<open>
  Claim C5. When both lookups of \<open>checkNotNeededPackage\<close> resolve, the result is the single
  error \<open>must be newer\<close> if the version of the record is not greater (by \<open>semver.gt\<close>) than
  the latest version of the deprecated package, and no error otherwise; the text of the
  error holds both versions.
\<close>

theorem checkNotNeededPackage_version_order:
  "manifest (libraryName u @ ''@'' @ NotNeededPackage.version u) = Inr replacement \<Longrightarrow>
   manifest (name u) = Inr typings \<Longrightarrow>
   checkNotNeededPackage manifest gt u =
     Inr (if gt (NotNeededPackage.version u) (Manifest.version typings) then []
          else [must_be_newer_message u (Manifest.version typings)]) \<and>
   sublist (NotNeededPackage.version u) (must_be_newer_message u (Manifest.version typings)) \<and>
   sublist (Manifest.version typings) (must_be_newer_message u (Manifest.version typings))"
proof -
  assume a: "manifest (libraryName u @ ''@'' @ NotNeededPackage.version u) = Inr replacement"
    and b: "manifest (name u) = Inr typings"
  have r: "checkNotNeededPackage manifest gt u =
     Inr (if gt (NotNeededPackage.version u) (Manifest.version typings) then []
          else [must_be_newer_message u (Manifest.version typings)])"
    using a b by (simp add: checkNotNeededPackage_def replacement_lookup_def typings_lookup_def)
  have c1: "sublist (NotNeededPackage.version u) (must_be_newer_message u (Manifest.version typings))"
    unfolding must_be_newer_message_def by (rule sublist_appendI)
  have "sublist (Manifest.version typings)
      ((''The specified version '' @ NotNeededPackage.version u @ '' of '' @
        libraryName u @ '' must be newer than the version'' @ newline @
        ''it is supposed to replace, '') @ Manifest.version typings @ ('' of '' @ name u @ ''.''))"
    by (rule sublist_appendI)
  then have c2: "sublist (Manifest.version typings) (must_be_newer_message u (Manifest.version typings))"
    by (simp add: must_be_newer_message_def)
  from r c1 c2 show ?thesis by simp
qed

theorem checkNotNeededPackage_version_order_witness:
  "checkNotNeededPackage example_manifest dotted_gt
     \<lparr>name = ''@types/bar'', libraryName = ''lib-bar'', NotNeededPackage.version = ''2.0.0''\<rparr> =
   Inr [''The specified version 2.0.0 of lib-bar must be newer than the version'' @ newline @
        ''it is supposed to replace, 2.1.0 of @types/bar.''] \<and>
   sublist ''2.0.0''
     (''The specified version 2.0.0 of lib-bar must be newer than the version'' @ newline @
      ''it is supposed to replace, 2.1.0 of @types/bar.'') \<and>
   sublist ''2.1.0''
     (''The specified version 2.0.0 of lib-bar must be newer than the version'' @ newline @
      ''it is supposed to replace, 2.1.0 of @types/bar.'') \<and>
   checkNotNeededPackage example_manifest dotted_gt
     \<lparr>name = ''@types/bar'', libraryName = ''lib-bar'', NotNeededPackage.version = ''3.0.0''\<rparr> =
   Inr []"
proof -
  let ?u = "\<lparr>name = ''@types/bar'', libraryName = ''lib-bar'',
    NotNeededPackage.version = ''2.0.0''\<rparr>"
  let ?v = "\<lparr>name = ''@types/bar'', libraryName = ''lib-bar'',
    NotNeededPackage.version = ''3.0.0''\<rparr>"
  have a: "example_manifest (libraryName ?u @ ''@'' @ NotNeededPackage.version ?u) =
      Inr \<lparr>Manifest.version = ''2.0.0''\<rparr>"
    by (simp add: example_manifest_def)
  have a': "example_manifest (libraryName ?v @ ''@'' @ NotNeededPackage.version ?v) =
      Inr \<lparr>Manifest.version = ''3.0.0''\<rparr>"
    by (simp add: example_manifest_def)
  have b: "example_manifest (name ?u) = Inr \<lparr>Manifest.version = ''2.1.0''\<rparr>"
    by (simp add: example_manifest_def)
  have b': "example_manifest (name ?v) = Inr \<lparr>Manifest.version = ''2.1.0''\<rparr>"
    by (simp add: example_manifest_def)
  have older: "\<not> dotted_gt ''2.0.0'' ''2.1.0''" by code_simp
  have newer: "dotted_gt ''3.0.0'' ''2.1.0''" by code_simp
  have msg: "must_be_newer_message ?u ''2.1.0'' =
      ''The specified version 2.0.0 of lib-bar must be newer than the version'' @ newline @
      ''it is supposed to replace, 2.1.0 of @types/bar.''"
    by (simp add: must_be_newer_message_def)
  show ?thesis
    using checkNotNeededPackage_version_order[OF a b, of dotted_gt] checkNotNeededPackage_version_order[OF a' b', of dotted_gt] older newer msg
    by simp
qed

lemma messages_differ: "no_npm_package_message u \<noteq> version_not_on_npm_message u"
  by (simp add: no_npm_package_message_def version_not_on_npm_message_def)

lemma messages_differ3:
  "no_npm_package_message u \<noteq> types_not_found_message u \<and>
   version_not_on_npm_message u \<noteq> types_not_found_message u"
  by (simp add: no_npm_package_message_def version_not_on_npm_message_def
      types_not_found_message_def)

text \<open>
  Claim C6, as the code has it. A rejection of the lookup of the replacement with a code other
  than \<open>E404\<close> and \<open>ETARGET\<close> is thrown again. Otherwise the first lookup contributes nothing
  (resolved), the message of \<open>E404\<close> or the message of \<open>ETARGET\<close>, and the second lookup
  decides: a rejection with a code other than \<open>E404\<close> is thrown again and nothing is
  returned; a rejection with \<open>E404\<close> adds its own message and the list is returned; a
  resolved lookup adds the message of the version order when the version is not greater. The
  three messages of the lookups differ from each other.
\<close>

theorem checkNotNeededPackage_registry_errors:
  "(manifest (libraryName u @ ''@'' @ NotNeededPackage.version u) = Inl r \<and>
    code r \<noteq> Some ''E404'' \<and> code r \<noteq> Some ''ETARGET'' \<longrightarrow>
      checkNotNeededPackage manifest gt u = Inl (Rethrown r)) \<and>
   ((manifest (libraryName u @ ''@'' @ NotNeededPackage.version u) = Inr m \<and> e1 = []) \<or>
    (manifest (libraryName u @ ''@'' @ NotNeededPackage.version u) = Inl r \<and>
     code r = Some ''E404'' \<and> e1 = [no_npm_package_message u]) \<or>
    (manifest (libraryName u @ ''@'' @ NotNeededPackage.version u) = Inl r \<and>
     code r = Some ''ETARGET'' \<and> e1 = [version_not_on_npm_message u]) \<longrightarrow>
      (manifest (name u) = Inl r' \<and> code r' \<noteq> Some ''E404'' \<longrightarrow>
         checkNotNeededPackage manifest gt u = Inl (Rethrown r')) \<and>
      (manifest (name u) = Inl r' \<and> code r' = Some ''E404'' \<longrightarrow>
         checkNotNeededPackage manifest gt u = Inr (e1 @ [types_not_found_message u])) \<and>
      (manifest (name u) = Inr typings \<longrightarrow>
         checkNotNeededPackage manifest gt u =
           Inr (e1 @ (if gt (NotNeededPackage.version u) (Manifest.version typings) then []
                      else [must_be_newer_message u (Manifest.version typings)])))) \<and>
   no_npm_package_message u \<noteq> version_not_on_npm_message u \<and>
   no_npm_package_message u \<noteq> types_not_found_message u \<and>
   version_not_on_npm_message u \<noteq> types_not_found_message u"
proof -
  have fatal1: "manifest (libraryName u @ ''@'' @ NotNeededPackage.version u) = Inl r \<and>
    code r \<noteq> Some ''E404'' \<and> code r \<noteq> Some ''ETARGET'' \<longrightarrow>
      checkNotNeededPackage manifest gt u = Inl (Rethrown r)"
    by (simp add: checkNotNeededPackage_def replacement_lookup_def)
  have second: "(manifest (libraryName u @ ''@'' @ NotNeededPackage.version u) = Inr m \<and> e1 = []) \<or>
    (manifest (libraryName u @ ''@'' @ NotNeededPackage.version u) = Inl r \<and>
     code r = Some ''E404'' \<and> e1 = [no_npm_package_message u]) \<or>
    (manifest (libraryName u @ ''@'' @ NotNeededPackage.version u) = Inl r \<and>
     code r = Some ''ETARGET'' \<and> e1 = [version_not_on_npm_message u]) \<longrightarrow>
      (manifest (name u) = Inl r' \<and> code r' \<noteq> Some ''E404'' \<longrightarrow>
         checkNotNeededPackage manifest gt u = Inl (Rethrown r')) \<and>
      (manifest (name u) = Inl r' \<and> code r' = Some ''E404'' \<longrightarrow>
         checkNotNeededPackage manifest gt u = Inr (e1 @ [types_not_found_message u])) \<and>
      (manifest (name u) = Inr typings \<longrightarrow>
         checkNotNeededPackage manifest gt u =
           Inr (e1 @ (if gt (NotNeededPackage.version u) (Manifest.version typings) then []
                      else [must_be_newer_message u (Manifest.version typings)])))"
    by (auto simp: checkNotNeededPackage_def replacement_lookup_def typings_lookup_def Let_def)
  from fatal1 second messages_differ[of u] messages_differ3[of u] show ?thesis
    by blast
qed

theorem checkNotNeededPackage_registry_errors_witness:
  "checkNotNeededPackage example_manifest dotted_gt
      \<lparr>name = ''@types/bar'', libraryName = ''lib-down'', NotNeededPackage.version = ''1.0.0''\<rparr> =
      Inl (Rethrown \<lparr>code = Some ''ECONNRESET'', message = ''socket hang up''\<rparr>) \<and>
   checkNotNeededPackage example_manifest dotted_gt
      \<lparr>name = ''@types/bar'', libraryName = ''lib-none'', NotNeededPackage.version = ''3.0.0''\<rparr> =
      Inr [''The entry for @types/bar in notNeededPackages.json has'' @ newline @
           [CHR 0x22] @ ''libraryName'' @ [CHR 0x22] @ '': '' @ [CHR 0x22] @ ''lib-none'' @
           [CHR 0x22] @ '', but there is no npm package with this name.'' @ newline @
           ''Unneeded packages have to be replaced with a package on npm.''] \<and>
   checkNotNeededPackage example_manifest dotted_gt
      \<lparr>name = ''@types/bar'', libraryName = ''lib-bar'', NotNeededPackage.version = ''9.9.9''\<rparr> =
      Inr [''The specified version 9.9.9 of lib-bar is not on npm.''] \<and>
   checkNotNeededPackage example_manifest dotted_gt
      \<lparr>name = ''@types/gone'', libraryName = ''lib-bar'', NotNeededPackage.version = ''9.9.9''\<rparr> =
      Inr [''The specified version 9.9.9 of lib-bar is not on npm.'',
           ''Unexpected error: @types package not found for @types/gone''] \<and>
   checkNotNeededPackage example_manifest dotted_gt
      \<lparr>name = ''@types/down'', libraryName = ''lib-none'', NotNeededPackage.version = ''3.0.0''\<rparr> =
      Inl (Rethrown \<lparr>code = Some ''ETIMEDOUT'', message = ''request timed out''\<rparr>)"
proof -
  let ?down = "\<lparr>name = ''@types/bar'', libraryName = ''lib-down'',
    NotNeededPackage.version = ''1.0.0''\<rparr>"
  let ?none = "\<lparr>name = ''@types/bar'', libraryName = ''lib-none'',
    NotNeededPackage.version = ''3.0.0''\<rparr>"
  let ?target = "\<lparr>name = ''@types/bar'', libraryName = ''lib-bar'',
    NotNeededPackage.version = ''9.9.9''\<rparr>"
  let ?gone = "\<lparr>name = ''@types/gone'', libraryName = ''lib-bar'',
    NotNeededPackage.version = ''9.9.9''\<rparr>"
  let ?both = "\<lparr>name = ''@types/down'', libraryName = ''lib-none'',
    NotNeededPackage.version = ''3.0.0''\<rparr>"
  let ?r404 = "\<lparr>code = Some ''E404'', message = ''Not found''\<rparr>"
  let ?rtarget = "\<lparr>code = Some ''ETARGET'', message = ''No matching version found''\<rparr>"
  let ?rreset = "\<lparr>code = Some ''ECONNRESET'', message = ''socket hang up''\<rparr>"
  let ?rtimeout = "\<lparr>code = Some ''ETIMEDOUT'', message = ''request timed out''\<rparr>"
  let ?latest = "\<lparr>Manifest.version = ''2.1.0''\<rparr>"
  have m1: "no_npm_package_message ?none =
      ''The entry for @types/bar in notNeededPackages.json has'' @ newline @
      [CHR 0x22] @ ''libraryName'' @ [CHR 0x22] @ '': '' @ [CHR 0x22] @ ''lib-none'' @
      [CHR 0x22] @ '', but there is no npm package with this name.'' @ newline @
      ''Unneeded packages have to be replaced with a package on npm.''"
    by (simp add: no_npm_package_message_def)
  have m2: "version_not_on_npm_message ?target =
      ''The specified version 9.9.9 of lib-bar is not on npm.''"
    by (simp add: version_not_on_npm_message_def)
  have m3: "version_not_on_npm_message ?gone =
      ''The specified version 9.9.9 of lib-bar is not on npm.''"
    by (simp add: version_not_on_npm_message_def)
  have m4: "types_not_found_message ?gone =
      ''Unexpected error: @types package not found for @types/gone''"
    by (simp add: types_not_found_message_def)
  have g1: "dotted_gt ''3.0.0'' ''2.1.0''" by code_simp
  have g2: "dotted_gt ''9.9.9'' ''2.1.0''" by code_simp
  have h1: "example_manifest (libraryName ?down @ ''@'' @ NotNeededPackage.version ?down) =
      Inl ?rreset \<and> code ?rreset \<noteq> Some ''E404'' \<and> code ?rreset \<noteq> Some ''ETARGET''"
    by (simp add: example_manifest_def)
  have h2: "example_manifest (libraryName ?none @ ''@'' @ NotNeededPackage.version ?none) =
      Inl ?r404 \<and> code ?r404 = Some ''E404'' \<and>
      [no_npm_package_message ?none] = [no_npm_package_message ?none]"
    by (simp add: example_manifest_def)
  have h2': "example_manifest (name ?none) = Inr ?latest"
    by (simp add: example_manifest_def)
  have h3: "example_manifest (libraryName ?target @ ''@'' @ NotNeededPackage.version ?target) =
      Inl ?rtarget \<and> code ?rtarget = Some ''ETARGET'' \<and>
      [version_not_on_npm_message ?target] = [version_not_on_npm_message ?target]"
    by (simp add: example_manifest_def)
  have h3': "example_manifest (name ?target) = Inr ?latest"
    by (simp add: example_manifest_def)
  have h4: "example_manifest (libraryName ?gone @ ''@'' @ NotNeededPackage.version ?gone) =
      Inl ?rtarget \<and> code ?rtarget = Some ''ETARGET'' \<and>
      [version_not_on_npm_message ?gone] = [version_not_on_npm_message ?gone]"
    by (simp add: example_manifest_def)
  have h4': "example_manifest (name ?gone) = Inl ?r404 \<and> code ?r404 = Some ''E404''"
    by (simp add: example_manifest_def)
  have h5: "example_manifest (libraryName ?both @ ''@'' @ NotNeededPackage.version ?both) =
      Inl ?r404 \<and> code ?r404 = Some ''E404'' \<and>
      [no_npm_package_message ?both] = [no_npm_package_message ?both]"
    by (simp add: example_manifest_def)
  have h5': "example_manifest (name ?both) = Inl ?rtimeout \<and> code ?rtimeout \<noteq> Some ''E404''"
    by (simp add: example_manifest_def)
  from checkNotNeededPackage_registry_errors[where manifest = example_manifest and u = ?down and r = ?rreset and gt = dotted_gt]
    h1
  have c1: "checkNotNeededPackage example_manifest dotted_gt ?down = Inl (Rethrown ?rreset)"
    by blast
  from checkNotNeededPackage_registry_errors[where manifest = example_manifest and u = ?none and r = ?r404 and gt = dotted_gt
      and ?e1.0 = "[no_npm_package_message ?none]" and typings = ?latest] h2 h2'
  have "checkNotNeededPackage example_manifest dotted_gt ?none =
      Inr ([no_npm_package_message ?none] @
        (if dotted_gt (NotNeededPackage.version ?none) (Manifest.version ?latest) then []
         else [must_be_newer_message ?none (Manifest.version ?latest)]))"
    by blast
  with g1 have c2: "checkNotNeededPackage example_manifest dotted_gt ?none =
      Inr [no_npm_package_message ?none]"
    by simp
  from checkNotNeededPackage_registry_errors[where manifest = example_manifest and u = ?target and r = ?rtarget
      and gt = dotted_gt and ?e1.0 = "[version_not_on_npm_message ?target]"
      and typings = ?latest] h3 h3'
  have "checkNotNeededPackage example_manifest dotted_gt ?target =
      Inr ([version_not_on_npm_message ?target] @
        (if dotted_gt (NotNeededPackage.version ?target) (Manifest.version ?latest) then []
         else [must_be_newer_message ?target (Manifest.version ?latest)]))"
    by blast
  with g2 have c3: "checkNotNeededPackage example_manifest dotted_gt ?target =
      Inr [version_not_on_npm_message ?target]"
    by simp
  from checkNotNeededPackage_registry_errors[where manifest = example_manifest and u = ?gone and r = ?rtarget and gt = dotted_gt
      and ?e1.0 = "[version_not_on_npm_message ?gone]" and r' = ?r404] h4 h4'
  have "checkNotNeededPackage example_manifest dotted_gt ?gone =
      Inr ([version_not_on_npm_message ?gone] @ [types_not_found_message ?gone])"
    by blast
  then have c4: "checkNotNeededPackage example_manifest dotted_gt ?gone =
      Inr [version_not_on_npm_message ?gone, types_not_found_message ?gone]"
    by simp
  from checkNotNeededPackage_registry_errors[where manifest = example_manifest and u = ?both and r = ?r404 and gt = dotted_gt
      and ?e1.0 = "[no_npm_package_message ?both]" and r' = ?rtimeout] h5 h5'
  have c5: "checkNotNeededPackage example_manifest dotted_gt ?both = Inl (Rethrown ?rtimeout)"
    by blast
  from c1 c2 c3 c4 c5 show ?thesis
    unfolding m1 m2 m3 m4 by blast
qed

text \<open>
  Claim C6 as it is stated fails: the replacement resolves, the lookup of the deprecated
  package itself is rejected with \<open>E404\<close>, and this registry error is not thrown again but
  collected (line 153).
\<close>

theorem checkNotNeededPackage_typings_not_found_collected:
  "example_manifest ''lib-bar@3.0.0'' = Inr \<lparr>Manifest.version = ''3.0.0''\<rparr> \<and>
   example_manifest ''@types/gone'' = Inl \<lparr>code = Some ''E404'', message = ''Not found''\<rparr> \<and>
   checkNotNeededPackage example_manifest dotted_gt
     \<lparr>name = ''@types/gone'', libraryName = ''lib-bar'', NotNeededPackage.version = ''3.0.0''\<rparr> =
   Inr [''Unexpected error: @types package not found for @types/gone'']"
  by code_simp

section \<open>The consistency check\<close>

lemma Set_add_all_set: "set (Set_add_all s xs) = set s \<union> set xs"
  by (induction xs arbitrary: s) (auto simp: Set_add_def)

lemma Set_add_all_distinct: "distinct s \<Longrightarrow> distinct (Set_add_all s xs)"
  by (induction xs arbitrary: s) (auto simp: Set_add_def)

lemma new_Set_dedup: "distinct (new_Set xs) \<and> set (new_Set xs) = set xs"
  by (simp add: new_Set_def Set_add_all_set Set_add_all_distinct)

lemma map_assertDefined_defined:
  "map typesDirectoryName dels = map Some names \<Longrightarrow> map_assertDefined dels = Inr names"
  by (induction dels arbitrary: names) (auto simp: assertDefined_def)

lemma map_assertDefined_undefined:
  "p \<in> set dels \<Longrightarrow> typesDirectoryName p = None \<Longrightarrow>
   map_assertDefined dels = Inl AssertionFailed"
  by (induction dels) (auto simp: assertDefined_def split: option.splits sum.splits)

lemma all_defined_names:
  "\<forall>p\<in>set dels. typesDirectoryName p \<noteq> None \<Longrightarrow>
   \<exists>names. map typesDirectoryName dels = map Some names"
proof (induction dels)
  case Nil then show ?case by simp
next
  case (Cons p ps)
  then obtain names where n: "map typesDirectoryName ps = map Some names" by auto
  from Cons.prems obtain x where "typesDirectoryName p = Some x" by auto
  with n have "map typesDirectoryName (p # ps) = map Some (x # names)" by simp
  then show ?case by blast
qed

lemma getNotNeededPackages_loop_verdicts:
  "getNotNeededPackages_loop allPackages s ps =
   \<lparr>notNeededs = notNeededs s @ verdict_accepted (map (deletion_verdict allPackages) ps),
    nn_errors = nn_errors s @ verdict_errors (map (deletion_verdict allPackages) ps)\<rparr>"
  by (induction ps arbitrary: s)
    (auto simp: getNotNeededPackages_step_def deletion_verdict_def still_has_typings_def
      split: option.splits)

text \<open>
  Claim C7. When every deletion has a directory name, \<open>getNotNeededPackages\<close> returns the
  consistency check of the names: over the names without repetition, a package that still has
  typings and is listed as deprecated is an error, one that is listed as deprecated and has no
  typings is accepted, any other is skipped; the result is the errors when there is one, and
  the accepted records otherwise.
\<close>

theorem getNotNeededPackages_trichotomy:
  "map typesDirectoryName dels = map Some names \<Longrightarrow>
   getNotNeededPackages allPackages dels = Inr (consistency_check allPackages names) \<and>
   distinct (new_Set names) \<and> set (new_Set names) = set names"
  by (simp add: getNotNeededPackages_def map_assertDefined_defined
      getNotNeededPackages_loop_verdicts consistency_check_def Let_def new_Set_dedup)

theorem getNotNeededPackages_trichotomy_witness:
  "getNotNeededPackages example_allPackages
     [\<lparr>typesDirectoryName = Some ''bar'', PackageId.version = Wildcard\<rparr>,
      \<lparr>typesDirectoryName = Some ''live'', PackageId.version = Wildcard\<rparr>,
      \<lparr>typesDirectoryName = Some ''bar'',
       PackageId.version = Exact \<lparr>major = 1, minor = None\<rparr>\<rparr>,
      \<lparr>typesDirectoryName = Some ''other'', PackageId.version = Wildcard\<rparr>] =
   Inr (NotNeededErrors
     [''Please delete all files in live when adding it to notNeededPackages.json.'']) \<and>
   getNotNeededPackages example_allPackages
     [\<lparr>typesDirectoryName = Some ''bar'', PackageId.version = Wildcard\<rparr>,
      \<lparr>typesDirectoryName = Some ''bar'',
       PackageId.version = Exact \<lparr>major = 1, minor = None\<rparr>\<rparr>,
      \<lparr>typesDirectoryName = Some ''other'', PackageId.version = Wildcard\<rparr>] =
   Inr (NotNeededs
     [\<lparr>name = ''@types/bar'', libraryName = ''lib-bar'',
       NotNeededPackage.version = ''2.0.0''\<rparr>])"
proof -
  let ?bar = "\<lparr>typesDirectoryName = Some ''bar'', PackageId.version = Wildcard\<rparr>"
  let ?live = "\<lparr>typesDirectoryName = Some ''live'', PackageId.version = Wildcard\<rparr>"
  let ?bar1 = "\<lparr>typesDirectoryName = Some ''bar'',
    PackageId.version = Exact \<lparr>major = 1, minor = None\<rparr>\<rparr>"
  let ?other = "\<lparr>typesDirectoryName = Some ''other'', PackageId.version = Wildcard\<rparr>"
  have h1: "map typesDirectoryName [?bar, ?live, ?bar1, ?other] =
      map Some [''bar'', ''live'', ''bar'', ''other'']"
    by simp
  have h2: "map typesDirectoryName [?bar, ?bar1, ?other] = map Some [''bar'', ''bar'', ''other'']"
    by simp
  have c1: "consistency_check example_allPackages [''bar'', ''live'', ''bar'', ''other''] =
      NotNeededErrors
        [''Please delete all files in live when adding it to notNeededPackages.json.'']"
    by code_simp
  have c2: "consistency_check example_allPackages [''bar'', ''bar'', ''other''] =
      NotNeededs [\<lparr>name = ''@types/bar'', libraryName = ''lib-bar'',
        NotNeededPackage.version = ''2.0.0''\<rparr>]"
    by code_simp
  show ?thesis
    using getNotNeededPackages_trichotomy[OF h1, of example_allPackages] getNotNeededPackages_trichotomy[OF h2, of example_allPackages] c1 c2
    by simp
qed

text \<open>
  Claim C10. \<open>getNotNeededPackages\<close> throws when a deletion has no directory name; when every
  deletion has one it returns a value.
\<close>

theorem getNotNeededPackages_assertion:
  "((\<exists>p\<in>set dels. typesDirectoryName p = None) \<longrightarrow>
      getNotNeededPackages allPackages dels = Inl AssertionFailed) \<and>
   ((\<forall>p\<in>set dels. typesDirectoryName p \<noteq> None) \<longrightarrow>
      (\<exists>r. getNotNeededPackages allPackages dels = Inr r))"
proof (intro conjI impI)
  assume "\<exists>p\<in>set dels. typesDirectoryName p = None"
  then have "map_assertDefined dels = Inl AssertionFailed"
    using map_assertDefined_undefined by blast
  then show "getNotNeededPackages allPackages dels = Inl AssertionFailed"
    by (simp add: getNotNeededPackages_def)
next
  assume "\<forall>p\<in>set dels. typesDirectoryName p \<noteq> None"
  then obtain names where "map typesDirectoryName dels = map Some names"
    using all_defined_names by blast
  then have "map_assertDefined dels = Inr names" by (rule map_assertDefined_defined)
  then show "\<exists>r. getNotNeededPackages allPackages dels = Inr r"
    by (simp add: getNotNeededPackages_def Let_def)
qed

theorem getNotNeededPackages_assertion_witness:
  "getNotNeededPackages example_allPackages
     [\<lparr>typesDirectoryName = Some ''bar'', PackageId.version = Wildcard\<rparr>,
      \<lparr>typesDirectoryName = None, PackageId.version = Wildcard\<rparr>] = Inl AssertionFailed \<and>
   (\<exists>r. getNotNeededPackages example_allPackages
     [\<lparr>typesDirectoryName = Some ''bar'', PackageId.version = Wildcard\<rparr>] = Inr r)"
proof -
  let ?bar = "\<lparr>typesDirectoryName = Some ''bar'', PackageId.version = Wildcard\<rparr>"
  let ?anon = "\<lparr>typesDirectoryName = None, PackageId.version = Wildcard\<rparr>"
  have u: "\<exists>p\<in>set [?bar, ?anon]. typesDirectoryName p = None" by simp
  have d: "\<forall>p\<in>set [?bar]. typesDirectoryName p \<noteq> None" by simp
  show ?thesis
    using getNotNeededPackages_assertion[of "[?bar, ?anon]" example_allPackages] getNotNeededPackages_assertion[of "[?bar]" example_allPackages] u d
    by blast
qed

section \<open>The pipeline\<close>






end
